theory Spec2Isabelle
  imports Complex_Main
begin

section \<open>The simulated human of \<open>linear_human.py\<close>\<close>

text \<open>
  The class \<open>LinearHuman\<close> moves a simulated human along straight lines from a start
  point through a list of goals and back to the start, and converts between the real
  frame and the simulation grid. The model below follows the source line by line.

  Numbers: the Python floats are modelled by the rationals, so every statement below is
  about exact arithmetic; the rounding of IEEE doubles is outside the model. A point is
  the pair of its two coordinates (the source holds it as a two-element list or array).
  The clock, the parameter server and the publishers are outside the model: the
  parameters arrive in a record, and the elapsed time is the argument of \<open>update_pose\<close>.
\<close>

subsection \<open>Values, errors and the primitives of Python used by the source\<close>

type_synonym point = "rat \<times> rat"

datatype exn = ZeroDivisionError | IndexError

text \<open>Division: \<open>a / b\<close> raises \<open>ZeroDivisionError\<close> when \<open>b\<close> is zero.\<close>

definition py_div :: "rat \<Rightarrow> rat \<Rightarrow> exn + rat" where
  "py_div a b = (if b \<noteq> 0 then Inr (a / b) else Inl ZeroDivisionError)"

text \<open>\<open>int(x)\<close> on a float truncates towards zero.\<close>

definition py_int :: "rat \<Rightarrow> int" where
  "py_int x = (if 0 \<le> x then \<lfloor>x\<rfloor> else \<lceil>x\<rceil>)"

text \<open>
  \<open>round(x)\<close> of Python 2, the language of the source (\<open>rospy\<close>, \<open>int(round(...))\<close>):
  to the nearest integer, a half away from zero.
\<close>

definition py_round :: "rat \<Rightarrow> int" where
  "py_round x = (if 0 \<le> x then \<lfloor>x + 1 / 2\<rfloor> else \<lceil>x - 1 / 2\<rceil>)"

text \<open>
  List indexing \<open>xs[i]\<close>: a negative index counts from the end, and an index outside
  \<open>-len(xs) .. len(xs) - 1\<close> raises \<open>IndexError\<close>.
\<close>

definition py_index :: "'a list \<Rightarrow> int \<Rightarrow> exn + 'a" where
  "py_index xs i =
     (if 0 \<le> i \<and> i < int (length xs) then Inr (xs ! nat i)
      else if i < 0 \<and> - int (length xs) \<le> i then Inr (xs ! nat (int (length xs) + i))
      else Inl IndexError)"

text \<open>The array arithmetic of numpy, on two-element arrays.\<close>

definition pt_sub :: "point \<Rightarrow> point \<Rightarrow> point" where
  "pt_sub p q = (fst p - fst q, snd p - snd q)"

definition pt_add :: "point \<Rightarrow> point \<Rightarrow> point" where
  "pt_add p q = (fst p + fst q, snd p + snd q)"

definition pt_scale :: "point \<Rightarrow> rat \<Rightarrow> point" where
  "pt_scale p c = (fst p * c, snd p * c)"

subsection \<open>The parameters and the object\<close>

text \<open>
  The values \<open>load_parameters\<close> reads with \<open>rospy.get_param\<close>: the corners and the
  points are floats, the two grid dimensions are integers (the source applies \<open>int\<close> to
  them). The human's number, its colour and its height only name topics and shape
  markers, and are left out.
\<close>

record params =
  state_lower :: point
  state_upper :: point
  param_real_start :: point
  param_real_goals :: "point list"
  param_sim_height :: int
  param_sim_width :: int

text \<open>
  The fields of the object. \<open>human_pose\<close> is \<open>None\<close> until the first call of
  \<open>update_pose\<close>, then the position \<open>(x, y, z)\<close> of the pose; the frame name is a
  constant and the stamp is the clock's.
\<close>

record human =
  real_height :: rat
  real_width :: rat
  real_lower :: point
  real_upper :: point
  real_start :: point
  real_goals :: "point list"
  final_T :: rat
  step_time :: rat
  waypt_times :: "rat list"
  human_pose :: "(rat \<times> rat \<times> rat) option"
  sim_height :: int
  sim_width :: int
  res_x :: rat
  res_y :: rat
  prev_pose :: point

subsection \<open>\<open>load_parameters\<close>\<close>

text \<open>
  Lines 57 to 91. Line 74 sets \<open>final_T = 60.0\<close>; the construction is written over the
  duration \<open>T\<close> in \<open>load_parameters_T\<close>, and \<open>load_parameters\<close> is its instance at 60, so
  that the statements about the schedule cover the constant of the source and every other
  duration. The two resolutions are divisions by \<open>sim_width - 1\<close> and \<open>sim_height - 1\<close>,
  which raise when the divisor is zero.
\<close>

definition load_parameters_T :: "rat \<Rightarrow> params \<Rightarrow> exn + human" where
  "load_parameters_T T p =
     (let low = state_lower p;
          up = state_upper p;
          height = snd up - snd low;
          width = fst up - fst low;
          goals = param_real_goals p
      in case py_div T (of_nat (length goals + 1)) of
           Inl e \<Rightarrow> Inl e
         | Inr step \<Rightarrow>
             (case py_div width (of_int (param_sim_width p - 1)) of
                Inl e \<Rightarrow> Inl e
              | Inr rx \<Rightarrow>
                  (case py_div height (of_int (param_sim_height p - 1)) of
                     Inl e \<Rightarrow> Inl e
                   | Inr ry \<Rightarrow>
                       Inr \<lparr> real_height = height,
                             real_width = width,
                             real_lower = low,
                             real_upper = up,
                             real_start = param_real_start p,
                             real_goals = goals,
                             final_T = T,
                             step_time = step,
                             waypt_times = map (\<lambda>i. of_nat i * step) [0 ..< length goals + 2],
                             human_pose = None,
                             sim_height = param_sim_height p,
                             sim_width = param_sim_width p,
                             res_x = rx,
                             res_y = ry,
                             prev_pose = param_real_start p \<rparr>)))"

definition load_parameters :: "params \<Rightarrow> exn + human" where
  "load_parameters p = load_parameters_T 60 p"

subsection \<open>\<open>update_pose\<close>\<close>

text \<open>
  Lines 164 to 185. The waypoints are the start, the goals, and the start again. At or
  after \<open>final_T\<close> the target is the start; before, the segment index is the truncated
  quotient of the time by \<open>step_time\<close>, and the target is interpolated between the two
  waypoints of the segment, over the two entries of \<open>waypt_times\<close>. \<open>prev_pose\<close> is
  assigned in the interpolation branch only (line 176); \<open>human_pose\<close> is assigned on
  every call (lines 178 to 185), with \<open>z = 0\<close>.
\<close>

definition waypts_of :: "human \<Rightarrow> point list" where
  "waypts_of s = [real_start s] @ real_goals s @ [real_start s]"

definition set_human_pose :: "point \<Rightarrow> human \<Rightarrow> human" where
  "set_human_pose target_pos s = s\<lparr> human_pose := Some (fst target_pos, snd target_pos, 0) \<rparr>"

definition update_pose :: "human \<Rightarrow> rat \<Rightarrow> exn + human" where
  "update_pose s curr_time =
     (let waypts = waypts_of s
      in if curr_time \<ge> final_T s then Inr (set_human_pose (real_start s) s)
         else
           (case py_div curr_time (step_time s) of
              Inl e \<Rightarrow> Inl e
            | Inr q \<Rightarrow>
                (let curr_waypt_idx = py_int q
                 in case py_index waypts curr_waypt_idx of
                      Inl e \<Rightarrow> Inl e
                    | Inr prev \<Rightarrow>
                        (case py_index waypts (curr_waypt_idx + 1) of
                           Inl e \<Rightarrow> Inl e
                         | Inr next \<Rightarrow>
                             (case py_index (waypt_times s) curr_waypt_idx of
                                Inl e \<Rightarrow> Inl e
                              | Inr ti \<Rightarrow>
                                  (case py_index (waypt_times s) (curr_waypt_idx + 1) of
                                     Inl e \<Rightarrow> Inl e
                                   | Inr tf \<Rightarrow>
                                       (case py_div (curr_time - ti) (tf - ti) of
                                          Inl e \<Rightarrow> Inl e
                                        | Inr f \<Rightarrow>
                                            (let target_pos = pt_add (pt_scale (pt_sub next prev) f) prev
                                             in Inr (set_human_pose target_pos
                                                      (s\<lparr> prev_pose := target_pos \<rparr>))))))))))"

text \<open>
  The loop of \<open>__init__\<close> (lines 40 to 46) calls \<open>update_pose\<close> with the elapsed time of
  each tick; \<open>run_ticks\<close> is the loop over the list of the times sampled, and
  \<open>linear_human_init\<close> is \<open>__init__\<close>: the parameters are loaded first, and an exception
  there ends the program before the loop.
\<close>

fun run_ticks :: "human \<Rightarrow> rat list \<Rightarrow> exn + human" where
  "run_ticks s [] = Inr s"
| "run_ticks s (t # ts) =
     (case update_pose s t of Inl e \<Rightarrow> Inl e | Inr s' \<Rightarrow> run_ticks s' ts)"

definition linear_human_init :: "params \<Rightarrow> rat list \<Rightarrow> exn + human" where
  "linear_human_init p ts =
     (case load_parameters p of Inl e \<Rightarrow> Inl e | Inr s \<Rightarrow> run_ticks s ts)"

subsection \<open>The coordinate maps\<close>

text \<open>
  Lines 187 to 201. A cell of the grid is a pair of integers. \<open>real_to_sim_coord\<close>
  divides by the resolutions, and raises when one is zero.
\<close>

definition sim_to_real_coord :: "human \<Rightarrow> int \<times> int \<Rightarrow> point" where
  "sim_to_real_coord s sim_coord =
     (of_int (fst sim_coord) * res_x s + fst (real_lower s),
      snd (real_upper s) - of_int (snd sim_coord) * res_y s)"

definition real_to_sim_coord :: "human \<Rightarrow> point \<Rightarrow> exn + int \<times> int" where
  "real_to_sim_coord s real_coord =
     (case py_div (fst real_coord - fst (real_lower s)) (res_x s) of
        Inl e \<Rightarrow> Inl e
      | Inr qx \<Rightarrow>
          (case py_div (snd (real_upper s) - snd real_coord) (res_y s) of
             Inl e \<Rightarrow> Inl e
           | Inr qy \<Rightarrow> Inr (py_round qx, py_round qy)))"

subsection \<open>The position of a call, and the scenario of the specification\<close>

text \<open>
  \<open>position_at s t\<close> is the pose that the call \<open>update_pose(t)\<close> leaves in \<open>human_pose\<close>,
  or the exception of the call. \<open>position_after p ts t\<close> is the same for the object
  constructed from the parameters \<open>p\<close> after the ticks \<open>ts\<close>, and \<open>field_after\<close> reads any
  field of that object.
\<close>

definition position_at :: "human \<Rightarrow> rat \<Rightarrow> exn + (rat \<times> rat \<times> rat) option" where
  "position_at s t = (case update_pose s t of Inl e \<Rightarrow> Inl e | Inr s' \<Rightarrow> Inr (human_pose s'))"

definition position_after :: "params \<Rightarrow> rat list \<Rightarrow> rat \<Rightarrow> exn + (rat \<times> rat \<times> rat) option" where
  "position_after p ts t =
     (case linear_human_init p ts of Inl e \<Rightarrow> Inl e | Inr s \<Rightarrow> position_at s t)"

definition field_after :: "(human \<Rightarrow> 'a) \<Rightarrow> params \<Rightarrow> rat list \<Rightarrow> exn + 'a" where
  "field_after f p ts = (case linear_human_init p ts of Inl e \<Rightarrow> Inl e | Inr s \<Rightarrow> Inr (f s))"

text \<open>
  The scenario: start \<open>(0, 0)\<close>, the one goal \<open>(10, 0)\<close>, on the grid of 10 by 10 cells
  over the square from \<open>(0, 0)\<close> to \<open>(9, 9)\<close>. \<open>no_goal_params\<close> is the same with no goal,
  and \<open>one_column_params\<close> the same on a grid one cell wide.
\<close>

definition scenario_params :: params where
  "scenario_params =
     \<lparr> state_lower = (0, 0), state_upper = (9, 9), param_real_start = (0, 0),
       param_real_goals = [(10, 0)], param_sim_height = 10, param_sim_width = 10 \<rparr>"

definition no_goal_params :: params where
  "no_goal_params = scenario_params \<lparr> param_real_goals := [] \<rparr>"

definition one_column_params :: params where
  "one_column_params = scenario_params \<lparr> param_sim_width := 1 \<rparr>"

text \<open>The fields \<open>update_pose\<close> reads: the schedule.\<close>

definition schedule_of :: "human \<Rightarrow> point \<times> point list \<times> rat \<times> rat \<times> rat list" where
  "schedule_of s = (real_start s, real_goals s, final_T s, step_time s, waypt_times s)"

text \<open>
  A schedule of \<open>n\<close> goals over the duration \<open>T\<close>, as \<open>load_parameters\<close> builds it and
  \<open>update_pose\<close> keeps it.
\<close>

definition schedule_built :: "rat \<Rightarrow> nat \<Rightarrow> human \<Rightarrow> bool" where
  "schedule_built T n s \<longleftrightarrow>
     length (real_goals s) = n \<and> final_T s = T \<and> step_time s = T / of_nat (n + 1) \<and>
     waypt_times s = map (\<lambda>i. of_nat i * step_time s) [0 ..< n + 2]"

section \<open>Properties\<close>

subsection \<open>The primitives\<close>

lemma py_div_nonzero: "b \<noteq> 0 \<Longrightarrow> py_div a b = Inr (a / b)"
  by (simp add: py_div_def)

lemma py_index_nat: "n < length xs \<Longrightarrow> py_index xs (int n) = Inr (xs ! n)"
  by (simp add: py_index_def)

lemma py_int_nonneg: "0 \<le> x \<Longrightarrow> py_int x = \<lfloor>x\<rfloor>"
  by (simp add: py_int_def)

lemma py_round_of_int: "py_round (of_int z) = z"
proof (cases "0 \<le> z")
  case True
  then have "\<lfloor>rat_of_int z + 1 / 2\<rfloor> = z"
    by (intro floor_unique) simp_all
  with True show ?thesis by (simp add: py_round_def)
next
  case False
  then have "\<lceil>rat_of_int z - 1 / 2\<rceil> = z"
    by (intro ceiling_unique) simp_all
  with False show ?thesis by (simp add: py_round_def)
qed

lemma py_round_error: "\<bar>of_int (py_round x) - x\<bar> \<le> 1 / 2"
proof (cases "0 \<le> x")
  case True
  have "of_int \<lfloor>x + 1 / 2\<rfloor> \<le> x + 1 / 2" and "x + 1 / 2 < of_int \<lfloor>x + 1 / 2\<rfloor> + 1"
    by linarith+
  then have "\<bar>of_int \<lfloor>x + 1 / 2\<rfloor> - x\<bar> \<le> 1 / 2"
    by linarith
  with True show ?thesis by (simp only: py_round_def if_True)
next
  case False
  have "of_int \<lceil>x - 1 / 2\<rceil> - 1 < x - 1 / 2" and "x - 1 / 2 \<le> of_int \<lceil>x - 1 / 2\<rceil>"
    by linarith+
  then have "\<bar>of_int \<lceil>x - 1 / 2\<rceil> - x\<bar> \<le> 1 / 2"
    by linarith
  with False show ?thesis by (simp only: py_round_def if_False)
qed

subsection \<open>What \<open>load_parameters\<close> builds and what \<open>update_pose\<close> keeps\<close>

lemma load_parameters_T_fields:
  assumes "load_parameters_T T p = Inr s"
  shows "final_T s = T"
    and "step_time s = T / of_nat (length (param_real_goals p) + 1)"
    and "waypt_times s = map (\<lambda>i. of_nat i * step_time s) [0 ..< length (param_real_goals p) + 2]"
    and "real_start s = param_real_start p"
    and "real_goals s = param_real_goals p"
    and "prev_pose s = param_real_start p"
    and "human_pose s = None"
  using assms
  by (auto simp: load_parameters_T_def py_div_def Let_def split: if_splits)

lemma load_parameters_T_mapper:
  assumes "load_parameters_T T p = Inr s"
  shows "res_x s = (fst (state_upper p) - fst (state_lower p)) / of_int (param_sim_width p - 1)"
    and "res_y s = (snd (state_upper p) - snd (state_lower p)) / of_int (param_sim_height p - 1)"
    and "real_lower s = state_lower p"
    and "real_upper s = state_upper p"
  using assms
  by (auto simp: load_parameters_T_def py_div_def Let_def split: if_splits)

lemma load_parameters_T_Inl:
  "load_parameters_T T p = Inl e \<longleftrightarrow>
     e = ZeroDivisionError \<and> (param_sim_width p = 1 \<or> param_sim_height p = 1)"
  by (auto simp: load_parameters_T_def py_div_def Let_def)

lemma update_pose_schedule: "update_pose s t = Inr s' \<Longrightarrow> schedule_of s' = schedule_of s"
  by (auto simp: update_pose_def schedule_of_def set_human_pose_def Let_def
      split: if_splits sum.splits)

lemma run_ticks_schedule: "run_ticks s ts = Inr s' \<Longrightarrow> schedule_of s' = schedule_of s"
proof (induction ts arbitrary: s)
  case Nil
  then show ?case by simp
next
  case (Cons t ts)
  then obtain s1 where 1: "update_pose s t = Inr s1" and 2: "run_ticks s1 ts = Inr s'"
    by (auto split: sum.splits)
  from Cons.IH [OF 2] update_pose_schedule [OF 1] show ?case by simp
qed

lemma position_at_schedule:
  "schedule_of s = schedule_of s' \<Longrightarrow> position_at s t = position_at s' t"
  by (auto simp: position_at_def update_pose_def schedule_of_def set_human_pose_def
      waypts_of_def Let_def split: sum.splits)

subsection \<open>The interpolation branch\<close>

lemma schedule_built_load:
  "load_parameters_T T p = Inr s \<Longrightarrow> schedule_built T (length (param_real_goals p)) s"
  by (simp add: schedule_built_def load_parameters_T_fields)

lemma schedule_built_cong:
  "schedule_of s' = schedule_of s \<Longrightarrow> schedule_built T n s \<Longrightarrow> schedule_built T n s'"
  by (simp add: schedule_built_def schedule_of_def)

lemma schedule_built_reached:
  assumes "load_parameters_T T p = Inr s0" and "run_ticks s0 ts = Inr s"
  shows "schedule_built T (length (param_real_goals p)) s"
  using schedule_built_cong [OF run_ticks_schedule [OF assms(2)] schedule_built_load [OF assms(1)]] .

lemma step_time_pos: "schedule_built T n s \<Longrightarrow> 0 < T \<Longrightarrow> 0 < step_time s"
  by (simp add: schedule_built_def)

lemma waypt_times_length: "schedule_built T n s \<Longrightarrow> length (waypt_times s) = n + 2"
  by (simp add: schedule_built_def)

lemma waypt_times_nth:
  "schedule_built T n s \<Longrightarrow> i < n + 2 \<Longrightarrow> waypt_times s ! i = of_nat i * step_time s"
  by (simp add: schedule_built_def del: upt_Suc)

lemma waypts_length: "schedule_built T n s \<Longrightarrow> length (waypts_of s) = n + 2"
  by (simp add: schedule_built_def waypts_of_def)

lemma py_index_succ: "n + 1 < length xs \<Longrightarrow> py_index xs (int n + 1) = Inr (xs ! (n + 1))"
  using py_index_nat [of "n + 1" xs] by (simp add: add.commute)

lemma segment_index:
  assumes b: "schedule_built T n s" and t: "0 \<le> t" "t < T"
  shows "py_int (t / step_time s) = \<lfloor>t / step_time s\<rfloor>"
    and "0 \<le> \<lfloor>t / step_time s\<rfloor>"
    and "nat \<lfloor>t / step_time s\<rfloor> \<le> n"
proof -
  from t have T: "0 < T" by simp
  have st: "0 < step_time s" by (rule step_time_pos [OF b T])
  have q0: "0 \<le> t / step_time s" using t(1) st by simp
  then show "py_int (t / step_time s) = \<lfloor>t / step_time s\<rfloor>" by (rule py_int_nonneg)
  from q0 show "0 \<le> \<lfloor>t / step_time s\<rfloor>" by simp
  have "T = of_nat (n + 1) * step_time s"
    using b by (simp add: schedule_built_def)
  with t(2) have "t < of_nat (n + 1) * step_time s" by simp
  with st have "t / step_time s < of_nat (n + 1)"
    by (simp add: pos_divide_less_eq)
  then have "\<lfloor>t / step_time s\<rfloor> < int (n + 1)"
    by (simp add: floor_less_iff)
  then show "nat \<lfloor>t / step_time s\<rfloor> \<le> n" by linarith
qed

lemma update_pose_segment:
  assumes b: "schedule_built T n s" and t: "0 \<le> t" "t < T"
  defines "k \<equiv> nat \<lfloor>t / step_time s\<rfloor>"
  defines "target \<equiv>
    pt_add (pt_scale (pt_sub (waypts_of s ! (k + 1)) (waypts_of s ! k))
              ((t - of_nat k * step_time s) / step_time s)) (waypts_of s ! k)"
  shows "update_pose s t = Inr (set_human_pose target (s\<lparr> prev_pose := target \<rparr>))"
proof -
  from t have T: "0 < T" by simp
  have st: "0 < step_time s" by (rule step_time_pos [OF b T])
  have fT: "final_T s = T" using b by (simp add: schedule_built_def)
  have idx: "py_int (t / step_time s) = int k"
    using segment_index [OF b t] by (simp add: k_def)
  have kn: "k \<le> n" using segment_index(3) [OF b t] by (simp add: k_def)
  have d: "py_div t (step_time s) = Inr (t / step_time s)"
    using st by (simp add: py_div_nonzero)
  have w0: "py_index (waypts_of s) (int k) = Inr (waypts_of s ! k)"
    using kn by (simp add: py_index_nat waypts_length [OF b])
  have w1: "py_index (waypts_of s) (int k + 1) = Inr (waypts_of s ! (k + 1))"
    using kn by (simp add: py_index_succ waypts_length [OF b])
  have t0: "py_index (waypt_times s) (int k) = Inr (of_nat k * step_time s)"
    using kn by (simp add: py_index_nat waypt_times_length [OF b] waypt_times_nth [OF b])
  have t1: "py_index (waypt_times s) (int k + 1) = Inr (of_nat (k + 1) * step_time s)"
    using kn by (simp add: py_index_succ waypt_times_length [OF b] waypt_times_nth [OF b])
  have dt: "of_nat (k + 1) * step_time s - of_nat k * step_time s = step_time s"
    by (simp add: algebra_simps)
  have f: "py_div (t - of_nat k * step_time s)
             (of_nat (k + 1) * step_time s - of_nat k * step_time s)
           = Inr ((t - of_nat k * step_time s) / step_time s)"
    unfolding dt using st by (simp add: py_div_nonzero)
  show ?thesis
    unfolding update_pose_def Let_def
    using t(2) by (simp only: fT d idx w0 w1 t0 t1 f target_def sum.case if_False not_le [symmetric])
qed

subsection \<open>The time boundary table\<close>

text \<open>
  Claim C5. For every number \<open>n\<close> of goals and every duration \<open>T > 0\<close>, the table
  \<open>waypt_times\<close> that \<open>load_parameters\<close> builds (and that every later tick finds
  unchanged) has \<open>n + 2\<close> entries, entry \<open>i\<close> is \<open>i * (T / (n + 1))\<close>, the entries
  increase strictly, the first is 0 and the last is \<open>T\<close>.
\<close>

theorem waypt_times_table:
  assumes "load_parameters_T T p = Inr s0" and "run_ticks s0 ts = Inr s" and "0 < T"
  shows "length (waypt_times s) = length (param_real_goals p) + 2 \<and>
         (\<forall>i < length (param_real_goals p) + 2.
            waypt_times s ! i = of_nat i * (T / of_nat (length (param_real_goals p) + 1))) \<and>
         sorted_wrt (<) (waypt_times s) \<and>
         hd (waypt_times s) = 0 \<and>
         last (waypt_times s) = T"
proof -
  let ?n = "length (param_real_goals p)"
  have b: "schedule_built T ?n s" by (rule schedule_built_reached [OF assms(1,2)])
  have st: "0 < step_time s" by (rule step_time_pos [OF b assms(3)])
  have step: "step_time s = T / of_nat (?n + 1)" using b by (simp add: schedule_built_def)
  have len: "length (waypt_times s) = ?n + 2" by (rule waypt_times_length [OF b])
  have nth: "waypt_times s ! i = of_nat i * step_time s" if "i < ?n + 2" for i
    using that by (rule waypt_times_nth [OF b])
  have incr: "sorted_wrt (<) (waypt_times s)"
    unfolding sorted_wrt_iff_nth_less
  proof (intro allI impI)
    fix i j assume "i < j" and "j < length (waypt_times s)"
    then have "waypt_times s ! i = of_nat i * step_time s"
      and "waypt_times s ! j = of_nat j * step_time s"
      by (simp_all add: len nth)
    moreover have "rat_of_nat i * step_time s < of_nat j * step_time s"
      using \<open>i < j\<close> st by simp
    ultimately show "waypt_times s ! i < waypt_times s ! j" by simp
  qed
  have ne: "waypt_times s \<noteq> []" using len by auto
  have first: "hd (waypt_times s) = 0"
    using nth [of 0] by (simp add: hd_conv_nth [OF ne])
  have "last (waypt_times s) = waypt_times s ! (?n + 1)"
    by (simp add: last_conv_nth [OF ne] len)
  also have "\<dots> = of_nat (?n + 1) * step_time s" by (simp add: nth)
  also have "\<dots> = T" by (simp add: step)
  finally have final: "last (waypt_times s) = T" .
  from len nth incr first final show ?thesis by (simp add: step)
qed

theorem waypt_times_table_witness:
  "load_parameters_T 60 scenario_params = Inr (projr (load_parameters_T 60 scenario_params)) \<and>
   run_ticks (projr (load_parameters_T 60 scenario_params)) [10, 45]
     = Inr (projr (linear_human_init scenario_params [10, 45])) \<and>
   (0::rat) < 60 \<and>
   length (waypt_times (projr (linear_human_init scenario_params [10, 45]))) = 3 \<and>
   waypt_times (projr (linear_human_init scenario_params [10, 45])) ! 1 = 30 \<and>
   sorted_wrt (<) (waypt_times (projr (linear_human_init scenario_params [10, 45]))) \<and>
   hd (waypt_times (projr (linear_human_init scenario_params [10, 45]))) = 0 \<and>
   last (waypt_times (projr (linear_human_init scenario_params [10, 45]))) = 60"
proof -
  let ?a = "projr (load_parameters_T 60 scenario_params)"
  let ?b = "projr (linear_human_init scenario_params [10, 45])"
  have l: "load_parameters_T 60 scenario_params = Inr ?a" by code_simp
  have r: "run_ticks ?a [10, 45] = Inr ?b" by code_simp
  have n: "length (param_real_goals scenario_params) = 1" by code_simp
  have T: "(0::rat) < 60" by simp
  from waypt_times_table [OF l r T] l r show ?thesis
    by (simp add: n)
qed

lemma reached_start_goals:
  assumes "load_parameters_T T p = Inr s0" and "run_ticks s0 ts = Inr s"
  shows "real_start s = param_real_start p" and "real_goals s = param_real_goals p"
    and "final_T s = T"
  using run_ticks_schedule [OF assms(2)] load_parameters_T_fields [OF assms(1)]
  by (simp_all add: schedule_of_def)

lemma waypts_reached:
  assumes "load_parameters_T T p = Inr s0" and "run_ticks s0 ts = Inr s"
  shows "waypts_of s = [param_real_start p] @ param_real_goals p @ [param_real_start p]"
  by (simp add: waypts_of_def reached_start_goals [OF assms])

lemma position_at_final:
  "final_T s \<le> t \<Longrightarrow> position_at s t = Inr (Some (fst (real_start s), snd (real_start s), 0))"
  by (simp add: position_at_def update_pose_def set_human_pose_def)

lemma position_at_segment:
  assumes b: "schedule_built T n s" and t: "0 \<le> t" "t < T"
  defines "k \<equiv> nat \<lfloor>t / step_time s\<rfloor>"
  defines "f \<equiv> (t - of_nat k * step_time s) / step_time s"
  shows "position_at s t =
           Inr (Some (fst (waypts_of s ! k) + f * (fst (waypts_of s ! (k + 1)) - fst (waypts_of s ! k)),
                      snd (waypts_of s ! k) + f * (snd (waypts_of s ! (k + 1)) - snd (waypts_of s ! k)),
                      0))"
  unfolding position_at_def update_pose_segment [OF b t]
  by (simp add: set_human_pose_def pt_add_def pt_sub_def pt_scale_def k_def f_def algebra_simps)

subsection \<open>The interpolated position\<close>

text \<open>
  Claim C3. For every elapsed time \<open>t\<close> with \<open>0 \<le> t < T\<close>, the call selects the segment
  \<open>k = floor (t / segment_length)\<close>, where \<open>segment_length = T / (n + 1)\<close>, takes \<open>p0\<close>, \<open>p1\<close>
  as the waypoints \<open>k\<close> and \<open>k + 1\<close> and \<open>t0\<close>, \<open>t1\<close> as the entries \<open>k\<close> and \<open>k + 1\<close> of the
  table, and returns \<open>p0 + f * (p1 - p0)\<close> on each axis, with \<open>f = (t - t0) / (t1 - t0)\<close>.
  The index \<open>k\<close> is at most \<open>n\<close>, so the four reads are inside the lists.
\<close>

theorem position_at_interpolates:
  assumes "load_parameters_T T p = Inr s0" and "run_ticks s0 ts = Inr s"
    and "0 \<le> t" and "t < T"
  shows "let n = length (param_real_goals p);
             segment_length = T / of_nat (n + 1);
             k = nat \<lfloor>t / segment_length\<rfloor>;
             p0 = waypts_of s ! k;
             p1 = waypts_of s ! (k + 1);
             t0 = waypt_times s ! k;
             t1 = waypt_times s ! (k + 1);
             f = (t - t0) / (t1 - t0)
         in k \<le> n \<and> length (waypts_of s) = n + 2 \<and> length (waypt_times s) = n + 2 \<and>
            position_at s t =
              Inr (Some (fst p0 + f * (fst p1 - fst p0), snd p0 + f * (snd p1 - snd p0), 0))"
proof -
  let ?n = "length (param_real_goals p)"
  have b: "schedule_built T ?n s" by (rule schedule_built_reached [OF assms(1,2)])
  have step: "step_time s = T / of_nat (?n + 1)" using b by (simp add: schedule_built_def)
  let ?k = "nat \<lfloor>t / step_time s\<rfloor>"
  have kn: "?k \<le> ?n" by (rule segment_index(3) [OF b assms(3,4)])
  have t0: "waypt_times s ! ?k = of_nat ?k * step_time s"
    using kn by (simp add: waypt_times_nth [OF b])
  have t1: "waypt_times s ! (?k + 1) = of_nat (?k + 1) * step_time s"
    using kn by (intro waypt_times_nth [OF b]) simp
  have dt: "waypt_times s ! (?k + 1) - waypt_times s ! ?k = step_time s"
    unfolding t0 t1 by (simp add: algebra_simps)
  show ?thesis
    unfolding Let_def step [symmetric] dt
    using kn position_at_segment [OF b assms(3,4)]
    by (simp only: t0 waypts_length [OF b] waypt_times_length [OF b] simp_thms)
qed
theorem position_at_interpolates_witness:
  "load_parameters_T 60 scenario_params = Inr (projr (load_parameters_T 60 scenario_params)) \<and>
   run_ticks (projr (load_parameters_T 60 scenario_params)) [10]
     = Inr (projr (linear_human_init scenario_params [10])) \<and>
   (0::rat) \<le> 45 \<and> (45::rat) < 60 \<and>
   position_at (projr (linear_human_init scenario_params [10])) 45 = Inr (Some (5, 0, 0))"
proof -
  let ?a = "projr (load_parameters_T 60 scenario_params)"
  let ?b = "projr (linear_human_init scenario_params [10])"
  have l: "load_parameters_T 60 scenario_params = Inr ?a" by code_simp
  have r: "run_ticks ?a [10] = Inr ?b" by code_simp
  have n: "length (param_real_goals scenario_params) = 1" by code_simp
  have w: "waypts_of ?b = [(0, 0), (10, 0), (0, 0)]" by code_simp
  have wt: "waypt_times ?b = [0, 30, 60]" by code_simp
  have fl: "nat \<lfloor>(45::rat) / (60 / 2)\<rfloor> = 1" by code_simp
  have t0: "(0::rat) \<le> 45" and t1: "(45::rat) < 60" by simp_all
  from position_at_interpolates [OF l r t0 t1] l r show ?thesis
    by (simp add: Let_def n w wt fl)
qed

subsection \<open>No exception in the interpolation branch\<close>

text \<open>
  Claim C10. For every schedule of \<open>n\<close> goals and every elapsed time \<open>t\<close> with
  \<open>0 \<le> t < T\<close>, the index \<open>k = int(t / step_time)\<close> is the floor of the quotient and lies
  between 0 and \<open>n\<close>; the reads of the \<open>n + 2\<close> waypoints and of the \<open>n + 2\<close> boundaries
  at \<open>k\<close> and \<open>k + 1\<close> are in range; the divisor \<open>tf - ti\<close> is \<open>step_time\<close>, which is
  positive; and the call returns without an exception.
\<close>

theorem interpolation_branch_total:
  assumes "load_parameters_T T p = Inr s0" and "run_ticks s0 ts = Inr s"
    and "0 \<le> t" and "t < T"
  shows "let n = length (param_real_goals p);
             k = py_int (t / step_time s)
         in py_div t (step_time s) = Inr (t / step_time s) \<and>
            k = \<lfloor>t / step_time s\<rfloor> \<and> 0 \<le> k \<and> k \<le> int n \<and>
            length (waypts_of s) = n + 2 \<and> length (waypt_times s) = n + 2 \<and>
            py_index (waypts_of s) k = Inr (waypts_of s ! nat k) \<and>
            py_index (waypts_of s) (k + 1) = Inr (waypts_of s ! (nat k + 1)) \<and>
            py_index (waypt_times s) k = Inr (waypt_times s ! nat k) \<and>
            py_index (waypt_times s) (k + 1) = Inr (waypt_times s ! (nat k + 1)) \<and>
            waypt_times s ! (nat k + 1) - waypt_times s ! nat k = step_time s \<and>
            0 < step_time s \<and>
            py_div (t - waypt_times s ! nat k) (waypt_times s ! (nat k + 1) - waypt_times s ! nat k)
              = Inr ((t - waypt_times s ! nat k) / step_time s) \<and>
            (\<exists>s'. update_pose s t = Inr s')"
proof -
  let ?n = "length (param_real_goals p)"
  define k where "k = nat \<lfloor>t / step_time s\<rfloor>"
  have b: "schedule_built T ?n s" by (rule schedule_built_reached [OF assms(1,2)])
  from assms(3,4) have T: "0 < T" by simp
  have st: "0 < step_time s" by (rule step_time_pos [OF b T])
  have q: "py_int (t / step_time s) = \<lfloor>t / step_time s\<rfloor>"
    by (rule segment_index(1) [OF b assms(3,4)])
  have ik: "\<lfloor>t / step_time s\<rfloor> = int k"
    using segment_index(2) [OF b assms(3,4)] by (simp add: k_def)
  have kn: "k \<le> ?n"
    using segment_index(3) [OF b assms(3,4)] by (simp add: k_def)
  have lw: "length (waypts_of s) = ?n + 2" by (rule waypts_length [OF b])
  have lt: "length (waypt_times s) = ?n + 2" by (rule waypt_times_length [OF b])
  have d: "py_div t (step_time s) = Inr (t / step_time s)"
    using st by (simp add: py_div_nonzero)
  have w0: "py_index (waypts_of s) (int k) = Inr (waypts_of s ! k)"
    using kn by (simp add: py_index_nat lw)
  have w1: "py_index (waypts_of s) (int k + 1) = Inr (waypts_of s ! (k + 1))"
    using kn by (simp add: py_index_succ lw)
  have i0: "py_index (waypt_times s) (int k) = Inr (waypt_times s ! k)"
    using kn by (simp add: py_index_nat lt)
  have i1: "py_index (waypt_times s) (int k + 1) = Inr (waypt_times s ! (k + 1))"
    using kn by (simp add: py_index_succ lt)
  have t0: "waypt_times s ! k = of_nat k * step_time s"
    using kn by (simp add: waypt_times_nth [OF b])
  have t1: "waypt_times s ! (k + 1) = of_nat (k + 1) * step_time s"
    using kn by (intro waypt_times_nth [OF b]) simp
  have dt: "waypt_times s ! (k + 1) - waypt_times s ! k = step_time s"
    unfolding t0 t1 by (simp add: algebra_simps)
  have f: "py_div (t - waypt_times s ! k) (waypt_times s ! (k + 1) - waypt_times s ! k)
             = Inr ((t - waypt_times s ! k) / step_time s)"
    unfolding dt using st by (simp add: py_div_nonzero)
  have r: "\<exists>s'. update_pose s t = Inr s'"
    by (simp add: update_pose_segment [OF b assms(3,4)])
  have kn': "int k \<le> int ?n" using kn by simp
  have k0: "0 \<le> int k" by simp
  show ?thesis
    unfolding Let_def q ik nat_int
    using d kn' k0 lw lt w0 w1 i0 i1 dt st f r
    by (simp only: simp_thms)
qed

theorem interpolation_branch_total_witness:
  "load_parameters_T 60 scenario_params = Inr (projr (load_parameters_T 60 scenario_params)) \<and>
   run_ticks (projr (load_parameters_T 60 scenario_params)) [61]
     = Inr (projr (linear_human_init scenario_params [61])) \<and>
   (0::rat) \<le> 59 \<and> (59::rat) < 60 \<and>
   py_int (59 / step_time (projr (linear_human_init scenario_params [61]))) = 1 \<and>
   py_index (waypts_of (projr (linear_human_init scenario_params [61]))) 2 = Inr (0, 0) \<and>
   py_index (waypt_times (projr (linear_human_init scenario_params [61]))) 2 = Inr 60 \<and>
   (\<exists>s'. update_pose (projr (linear_human_init scenario_params [61])) 59 = Inr s')"
proof -
  let ?a = "projr (load_parameters_T 60 scenario_params)"
  let ?b = "projr (linear_human_init scenario_params [61])"
  have l: "load_parameters_T 60 scenario_params = Inr ?a" by code_simp
  have r: "run_ticks ?a [61] = Inr ?b" by code_simp
  have k: "py_int (59 / step_time ?b) = 1" and k': "py_int (59 / 30) = 1" by code_simp+
  have w: "waypts_of ?b = [(0, 0), (10, 0), (0, 0)]" by code_simp
  have wt: "waypt_times ?b = [0, 30, 60]" by code_simp
  have t0: "(0::rat) \<le> 59" and t1: "(59::rat) < 60" by simp_all
  from interpolation_branch_total [OF l r t0 t1] l r show ?thesis
    by (simp add: Let_def k k' w wt)
qed

subsection \<open>Home at the start and after the end\<close>

text \<open>
  Claim C1. For every schedule that \<open>load_parameters\<close> builds (total duration 60), the
  position at elapsed time 0 is the start point, and for every elapsed time \<open>t\<close> at or
  after 60 the position is the start point: the call takes the branch of line 166, which
  reads no segment and changes nothing but \<open>human_pose\<close>.
\<close>

theorem home_at_zero_and_after_final:
  assumes "load_parameters p = Inr s0" and "run_ticks s0 ts = Inr s" and "t = 0 \<or> 60 \<le> t"
  shows "final_T s = 60 \<and>
         position_at s t = Inr (Some (fst (param_real_start p), snd (param_real_start p), 0)) \<and>
         (60 \<le> t \<longrightarrow>
            update_pose s t =
              Inr (s\<lparr> human_pose := Some (fst (param_real_start p), snd (param_real_start p), 0) \<rparr>))"
proof -
  let ?n = "length (param_real_goals p)"
  have l: "load_parameters_T 60 p = Inr s0" using assms(1) by (simp add: load_parameters_def)
  have b: "schedule_built 60 ?n s" by (rule schedule_built_reached [OF l assms(2)])
  have fT: "final_T s = 60" and rs: "real_start s = param_real_start p"
    by (rule reached_start_goals [OF l assms(2)])+
  have w0: "waypts_of s ! 0 = param_real_start p"
    by (simp add: waypts_reached [OF l assms(2)])
  have zero: "position_at s 0 = Inr (Some (fst (param_real_start p), snd (param_real_start p), 0))"
    using position_at_segment [OF b, of 0] by (simp add: w0)
  have late: "position_at s t = Inr (Some (fst (param_real_start p), snd (param_real_start p), 0))"
    if "60 \<le> t"
    using that position_at_final [of s t] by (simp add: fT rs)
  have upd: "update_pose s t =
      Inr (s\<lparr> human_pose := Some (fst (param_real_start p), snd (param_real_start p), 0) \<rparr>)"
    if "60 \<le> t"
    using that by (simp add: update_pose_def set_human_pose_def fT rs)
  from assms(3) zero late upd fT show ?thesis by auto
qed

theorem home_at_zero_and_after_final_witness:
  "load_parameters scenario_params = Inr (projr (load_parameters scenario_params)) \<and>
   run_ticks (projr (load_parameters scenario_params)) [10, 45]
     = Inr (projr (linear_human_init scenario_params [10, 45])) \<and>
   ((0::rat) = 0 \<or> (60::rat) \<le> 0) \<and> ((75::rat) = 0 \<or> (60::rat) \<le> 75) \<and>
   position_at (projr (linear_human_init scenario_params [10, 45])) 0 = Inr (Some (0, 0, 0)) \<and>
   position_at (projr (linear_human_init scenario_params [10, 45])) 75 = Inr (Some (0, 0, 0))"
proof -
  let ?a = "projr (load_parameters scenario_params)"
  let ?b = "projr (linear_human_init scenario_params [10, 45])"
  have l: "load_parameters scenario_params = Inr ?a" by code_simp
  have r: "run_ticks ?a [10, 45] = Inr ?b" by code_simp
  have st: "param_real_start scenario_params = (0, 0)" by code_simp
  have t0: "(0::rat) = 0 \<or> (60::rat) \<le> 0" and t1: "(75::rat) = 0 \<or> (60::rat) \<le> 75"
    by simp_all
  from home_at_zero_and_after_final [OF l r t0] home_at_zero_and_after_final [OF l r t1] l r
  show ?thesis by (simp add: st)
qed

subsection \<open>Each waypoint at its boundary\<close>

text \<open>
  Claim C2. For every schedule of \<open>n\<close> goals over a duration \<open>T > 0\<close>, with the waypoints
  \<open>[start, goal_1, ..., goal_n, start]\<close> and the boundaries \<open>t_i = i * (T / (n + 1))\<close>
  for \<open>0 \<le> i \<le> n + 1\<close>, the position at \<open>t_i\<close> is waypoint \<open>i\<close>.
\<close>

theorem waypoint_at_boundary:
  assumes "load_parameters_T T p = Inr s0" and "run_ticks s0 ts = Inr s"
    and "0 < T" and "i \<le> length (param_real_goals p) + 1"
  shows "waypts_of s = [param_real_start p] @ param_real_goals p @ [param_real_start p] \<and>
         waypt_times s ! i = of_nat i * (T / of_nat (length (param_real_goals p) + 1)) \<and>
         position_at s (waypt_times s ! i)
           = Inr (Some (fst (waypts_of s ! i), snd (waypts_of s ! i), 0))"
proof -
  let ?n = "length (param_real_goals p)"
  have b: "schedule_built T ?n s" by (rule schedule_built_reached [OF assms(1,2)])
  have st: "0 < step_time s" by (rule step_time_pos [OF b assms(3)])
  have step: "step_time s = T / of_nat (?n + 1)" using b by (simp add: schedule_built_def)
  have fT: "final_T s = T" using b by (simp add: schedule_built_def)
  have total: "of_nat (?n + 1) * step_time s = T" by (simp add: step)
  have w: "waypts_of s = [param_real_start p] @ param_real_goals p @ [param_real_start p]"
    by (rule waypts_reached [OF assms(1,2)])
  have ti: "waypt_times s ! i = of_nat i * step_time s"
    using assms(4) by (intro waypt_times_nth [OF b]) simp
  have pos: "position_at s (of_nat i * step_time s)
               = Inr (Some (fst (waypts_of s ! i), snd (waypts_of s ! i), 0))"
  proof (cases "i = ?n + 1")
    case True
    have "length (real_goals s) = ?n" using b by (simp add: schedule_built_def)
    then have "waypts_of s ! i = real_start s"
      unfolding True waypts_of_def by (simp add: nth_append)
    moreover have "final_T s \<le> of_nat i * step_time s"
      unfolding True total fT by simp
    ultimately show ?thesis by (simp add: position_at_final)
  next
    case False
    with assms(4) have "i < ?n + 1" by simp
    then have "rat_of_nat i < of_nat (?n + 1)" by (simp only: of_nat_less_iff)
    with st have "of_nat i * step_time s < of_nat (?n + 1) * step_time s"
      by (simp only: mult_less_cancel_right_pos)
    then have lt: "of_nat i * step_time s < T" by (simp only: total)
    have ge: "0 \<le> rat_of_nat i * step_time s" using st by simp
    have k: "nat \<lfloor>rat_of_nat i * step_time s / step_time s\<rfloor> = i"
      using st by simp
    show ?thesis
      using position_at_segment [OF b ge lt] unfolding k by simp
  qed
  from w ti pos show ?thesis by (simp add: step)
qed

theorem waypoint_at_boundary_witness:
  "load_parameters_T 60 scenario_params = Inr (projr (load_parameters_T 60 scenario_params)) \<and>
   run_ticks (projr (load_parameters_T 60 scenario_params)) [10, 45]
     = Inr (projr (linear_human_init scenario_params [10, 45])) \<and>
   (0::rat) < 60 \<and> (1::nat) \<le> length (param_real_goals scenario_params) + 1 \<and>
   waypt_times (projr (linear_human_init scenario_params [10, 45])) ! 1 = 30 \<and>
   position_at (projr (linear_human_init scenario_params [10, 45])) 30 = Inr (Some (10, 0, 0))"
proof -
  let ?a = "projr (load_parameters_T 60 scenario_params)"
  let ?b = "projr (linear_human_init scenario_params [10, 45])"
  have l: "load_parameters_T 60 scenario_params = Inr ?a" by code_simp
  have r: "run_ticks ?a [10, 45] = Inr ?b" by code_simp
  have n: "length (param_real_goals scenario_params) = 1" by code_simp
  have T: "(0::rat) < 60" by simp
  have i: "(1::nat) \<le> length (param_real_goals scenario_params) + 1" by (simp add: n)
  have w: "waypts_of ?b ! 1 = (10, 0)" by code_simp
  note th = waypoint_at_boundary [OF l r T i]
  from th have a: "waypt_times ?b ! 1 = 30" by (simp add: n)
  from th have "position_at ?b (waypt_times ?b ! 1)
      = Inr (Some (fst (waypts_of ?b ! 1), snd (waypts_of ?b ! 1), 0))"
    by (rule conjunct2 [THEN conjunct2])
  then have c: "position_at ?b 30 = Inr (Some (10, 0, 0))"
    unfolding a w by simp
  from l r T i a c show ?thesis by (intro conjI)
qed

subsection \<open>The scenario\<close>

text \<open>
  Claim C4, as amended. With start \<open>(0, 0)\<close>, the one goal \<open>(10, 0)\<close> and the duration 60,
  the waypoints are \<open>[(0, 0), (10, 0), (0, 0)]\<close>; one goal gives two segments, so
  \<open>step_time\<close> is 30 and the boundaries are \<open>[0, 30, 60]\<close>; the position at 10 is
  \<open>(10/3, 0)\<close>, at 30 it is the goal \<open>(10, 0)\<close>, and at 60 it is \<open>(0, 0)\<close>. The halfway
  point \<open>(5, 0)\<close> is reached at 15 on the way out and at 45 on the way back.
\<close>

theorem scenario_positions:
  "field_after waypts_of scenario_params [] = Inr [(0, 0), (10, 0), (0, 0)] \<and>
   field_after step_time scenario_params [] = Inr 30 \<and>
   field_after waypt_times scenario_params [] = Inr [0, 30, 60] \<and>
   position_after scenario_params [] 10 = Inr (Some (10 / 3, 0, 0)) \<and>
   position_after scenario_params [] 30 = Inr (Some (10, 0, 0)) \<and>
   position_after scenario_params [] 60 = Inr (Some (0, 0, 0)) \<and>
   position_after scenario_params [] 15 = Inr (Some (5, 0, 0)) \<and>
   position_after scenario_params [] 45 = Inr (Some (5, 0, 0))"
  by code_simp

text \<open>
  The claim as it is written fails at the scenario itself: the boundaries are not
  \<open>[0, 20, 40, 60]\<close>, and the positions at 10 and at 30 are not \<open>(5, 0)\<close>.
\<close>

theorem scenario_counterexample:
  "field_after waypt_times scenario_params [] \<noteq> Inr [0, 20, 40, 60] \<and>
   position_after scenario_params [] 10 \<noteq> Inr (Some (5, 0, 0)) \<and>
   position_after scenario_params [] 30 \<noteq> Inr (Some (5, 0, 0))"
  by code_simp

subsection \<open>The coordinate round trip\<close>

lemma real_to_sim_coord_value:
  assumes "res_x s \<noteq> 0" and "res_y s \<noteq> 0"
  shows "real_to_sim_coord s q =
           Inr (py_round ((fst q - fst (real_lower s)) / res_x s),
                py_round ((snd (real_upper s) - snd q) / res_y s))"
  using assms by (simp add: real_to_sim_coord_def py_div_nonzero)

lemma real_to_sim_of_sim_to_real:
  assumes "res_x s \<noteq> 0" and "res_y s \<noteq> 0"
  shows "real_to_sim_coord s (sim_to_real_coord s cell) = Inr cell"
  using assms
  by (simp add: real_to_sim_coord_value [OF assms] sim_to_real_coord_def py_round_of_int)

lemma scaled_round_error:
  fixes r :: rat
  shows "\<bar>(of_int (py_round x) - x) * r\<bar> \<le> \<bar>r\<bar> / 2"
proof -
  have "\<bar>(of_int (py_round x) - x) * r\<bar> = \<bar>of_int (py_round x) - x\<bar> * \<bar>r\<bar>"
    by (rule abs_mult)
  also have "\<dots> \<le> 1 / 2 * \<bar>r\<bar>"
    by (rule mult_right_mono [OF py_round_error]) simp
  finally show ?thesis by simp
qed

lemma sim_to_real_of_real_to_sim_error:
  fixes s :: human and q :: point
  assumes "res_x s \<noteq> 0" and "res_y s \<noteq> 0"
  defines "c \<equiv> (py_round ((fst q - fst (real_lower s)) / res_x s),
                  py_round ((snd (real_upper s) - snd q) / res_y s))"
  shows "\<bar>fst (sim_to_real_coord s c) - fst q\<bar> \<le> \<bar>res_x s\<bar> / 2"
    and "\<bar>snd (sim_to_real_coord s c) - snd q\<bar> \<le> \<bar>res_y s\<bar> / 2"
proof -
  let ?qx = "(fst q - fst (real_lower s)) / res_x s"
  let ?qy = "(snd (real_upper s) - snd q) / res_y s"
  have x: "fst q = ?qx * res_x s + fst (real_lower s)" using assms(1) by simp
  have y: "snd q = snd (real_upper s) - ?qy * res_y s" using assms(2) by simp
  have "fst (sim_to_real_coord s c) - fst q = (of_int (py_round ?qx) - ?qx) * res_x s"
    unfolding sim_to_real_coord_def c_def using assms(1) by (simp add: field_simps)
  then show "\<bar>fst (sim_to_real_coord s c) - fst q\<bar> \<le> \<bar>res_x s\<bar> / 2"
    by (simp only: scaled_round_error)
  have "snd (sim_to_real_coord s c) - snd q = - ((of_int (py_round ?qy) - ?qy) * res_y s)"
    unfolding sim_to_real_coord_def c_def using assms(2) by (simp add: field_simps)
  then have "\<bar>snd (sim_to_real_coord s c) - snd q\<bar> = \<bar>(of_int (py_round ?qy) - ?qy) * res_y s\<bar>"
    by (simp only: abs_minus)
  then show "\<bar>snd (sim_to_real_coord s c) - snd q\<bar> \<le> \<bar>res_y s\<bar> / 2"
    by (simp only: scaled_round_error)
qed

text \<open>
  Claim C6. On the grid of 10 by 10 cells over the square from \<open>(0, 0)\<close> to \<open>(9, 9)\<close>,
  \<open>real_to_sim(sim_to_real((3, 4)))\<close> is \<open>(3, 4)\<close>. For every mapper with resolutions other
  than zero and every point \<open>q\<close> of the real frame, \<open>real_to_sim(q)\<close> returns a cell,
  \<open>sim_to_real\<close> of that cell is within half a cell of resolution of \<open>q\<close> on each axis, and
  it is \<open>q\<close> itself exactly when \<open>q\<close> is the centre of a cell, that is, \<open>sim_to_real\<close> of a
  cell.
\<close>

theorem coordinate_round_trip:
  "(load_parameters p = Inr s \<and> state_lower p = (0, 0) \<and> state_upper p = (9, 9) \<and>
    param_sim_width p = 10 \<and> param_sim_height p = 10 \<longrightarrow>
      real_to_sim_coord s (sim_to_real_coord s (3, 4)) = Inr (3, 4)) \<and>
   (res_x s \<noteq> 0 \<and> res_y s \<noteq> 0 \<longrightarrow>
      (\<exists>c. real_to_sim_coord s q = Inr c \<and>
           \<bar>fst (sim_to_real_coord s c) - fst q\<bar> \<le> \<bar>res_x s\<bar> / 2 \<and>
           \<bar>snd (sim_to_real_coord s c) - snd q\<bar> \<le> \<bar>res_y s\<bar> / 2 \<and>
           (sim_to_real_coord s c = q \<longleftrightarrow> (\<exists>cell. q = sim_to_real_coord s cell))))"
proof (intro conjI impI)
  assume a: "load_parameters p = Inr s \<and> state_lower p = (0, 0) \<and> state_upper p = (9, 9) \<and>
    param_sim_width p = 10 \<and> param_sim_height p = 10"
  then have l: "load_parameters_T 60 p = Inr s" by (simp add: load_parameters_def)
  have "res_x s = 1" and "res_y s = 1"
    using a by (simp_all add: load_parameters_T_mapper [OF l])
  then have "res_x s \<noteq> 0" and "res_y s \<noteq> 0" by simp_all
  then show "real_to_sim_coord s (sim_to_real_coord s (3, 4)) = Inr (3, 4)"
    by (rule real_to_sim_of_sim_to_real)
next
  assume "res_x s \<noteq> 0 \<and> res_y s \<noteq> 0"
  then have rx: "res_x s \<noteq> 0" and ry: "res_y s \<noteq> 0" by simp_all
  let ?c = "(py_round ((fst q - fst (real_lower s)) / res_x s),
             py_round ((snd (real_upper s) - snd q) / res_y s))"
  have v: "real_to_sim_coord s q = Inr ?c" by (rule real_to_sim_coord_value [OF rx ry])
  have ex: "\<bar>fst (sim_to_real_coord s ?c) - fst q\<bar> \<le> \<bar>res_x s\<bar> / 2"
    and ey: "\<bar>snd (sim_to_real_coord s ?c) - snd q\<bar> \<le> \<bar>res_y s\<bar> / 2"
    by (rule sim_to_real_of_real_to_sim_error [OF rx ry])+
  have exact: "sim_to_real_coord s ?c = q \<longleftrightarrow> (\<exists>cell. q = sim_to_real_coord s cell)"
  proof
    assume "sim_to_real_coord s ?c = q"
    then have "q = sim_to_real_coord s ?c" by simp
    then show "\<exists>cell. q = sim_to_real_coord s cell" ..
  next
    assume "\<exists>cell. q = sim_to_real_coord s cell"
    then obtain cell where q: "q = sim_to_real_coord s cell" ..
    have "real_to_sim_coord s q = Inr cell"
      unfolding q by (rule real_to_sim_of_sim_to_real [OF rx ry])
    with v have "?c = cell" by simp
    then show "sim_to_real_coord s ?c = q" by (simp only: q)
  qed
  from v ex ey exact
  show "\<exists>c. real_to_sim_coord s q = Inr c \<and>
           \<bar>fst (sim_to_real_coord s c) - fst q\<bar> \<le> \<bar>res_x s\<bar> / 2 \<and>
           \<bar>snd (sim_to_real_coord s c) - snd q\<bar> \<le> \<bar>res_y s\<bar> / 2 \<and>
           (sim_to_real_coord s c = q \<longleftrightarrow> (\<exists>cell. q = sim_to_real_coord s cell))"
    by blast
qed
theorem coordinate_round_trip_witness:
  "load_parameters scenario_params = Inr (projr (load_parameters scenario_params)) \<and>
   state_lower scenario_params = (0, 0) \<and> state_upper scenario_params = (9, 9) \<and>
   param_sim_width scenario_params = 10 \<and> param_sim_height scenario_params = 10 \<and>
   real_to_sim_coord (projr (load_parameters scenario_params))
     (sim_to_real_coord (projr (load_parameters scenario_params)) (3, 4)) = Inr (3, 4) \<and>
   res_x (projr (load_parameters scenario_params)) \<noteq> 0 \<and>
   res_y (projr (load_parameters scenario_params)) \<noteq> 0 \<and>
   real_to_sim_coord (projr (load_parameters scenario_params)) (17 / 5, 5) = Inr (3, 4) \<and>
   \<bar>fst (sim_to_real_coord (projr (load_parameters scenario_params)) (3, 4)) - 17 / 5\<bar>
     \<le> \<bar>res_x (projr (load_parameters scenario_params))\<bar> / 2 \<and>
   \<bar>snd (sim_to_real_coord (projr (load_parameters scenario_params)) (3, 4)) - 5\<bar>
     \<le> \<bar>res_y (projr (load_parameters scenario_params))\<bar> / 2"
proof -
  let ?a = "projr (load_parameters scenario_params)"
  let ?q = "(17 / 5, 5) :: point"
  have h1: "load_parameters scenario_params = Inr ?a \<and>
      state_lower scenario_params = (0, 0) \<and> state_upper scenario_params = (9, 9) \<and>
      param_sim_width scenario_params = 10 \<and> param_sim_height scenario_params = 10"
    by code_simp
  have h2: "res_x ?a \<noteq> 0 \<and> res_y ?a \<noteq> 0" by code_simp
  have v: "real_to_sim_coord ?a ?q = Inr (3, 4)" by code_simp
  note th = coordinate_round_trip [of scenario_params ?a ?q]
  from th h1 have c1: "real_to_sim_coord ?a (sim_to_real_coord ?a (3, 4)) = Inr (3, 4)"
    by blast
  from th h2 obtain c where c: "real_to_sim_coord ?a ?q = Inr c"
    and ex: "\<bar>fst (sim_to_real_coord ?a c) - fst ?q\<bar> \<le> \<bar>res_x ?a\<bar> / 2"
    and ey: "\<bar>snd (sim_to_real_coord ?a c) - snd ?q\<bar> \<le> \<bar>res_y ?a\<bar> / 2"
    by blast
  from c v have "c = (3, 4)" by simp
  with ex ey have e: "\<bar>fst (sim_to_real_coord ?a (3, 4)) - 17 / 5\<bar> \<le> \<bar>res_x ?a\<bar> / 2"
    "\<bar>snd (sim_to_real_coord ?a (3, 4)) - 5\<bar> \<le> \<bar>res_y ?a\<bar> / 2"
    by simp_all
  from h1 h2 c1 v e show ?thesis by (intro conjI) simp_all
qed

subsection \<open>The position depends on the time and the schedule only\<close>

lemma update_pose_again: "update_pose s t = Inr s' \<Longrightarrow> update_pose s' t = Inr s'"
  by (auto simp: update_pose_def Let_def waypts_of_def set_human_pose_def
      split: sum.splits if_splits)

text \<open>
  Claim C7. The position of a call depends on the elapsed time and on the schedule only:
  whatever calls were made before (the ticks \<open>ts\<close>, which may repeat \<open>t\<close>), the call at
  \<open>t\<close> gives the position it gives on the object as it was before them; the earlier
  calls leave the schedule as it was; and a second call at the same \<open>t\<close> right after the
  first leaves the object as the first call left it. (The stamp of the pose, which is
  the clock's, is outside the model.)
\<close>

theorem position_at_repeatable:
  assumes "run_ticks s ts = Inr s'"
  shows "schedule_of s' = schedule_of s \<and>
         position_at s' t = position_at s t \<and>
         (\<forall>s1. update_pose s' t = Inr s1 \<longrightarrow> update_pose s1 t = Inr s1)"
  using run_ticks_schedule [OF assms] position_at_schedule [of s' s t] update_pose_again
  by blast

theorem position_at_repeatable_witness:
  "run_ticks (projr (load_parameters scenario_params)) [10, 45, 10, 70]
     = Inr (projr (linear_human_init scenario_params [10, 45, 10, 70])) \<and>
   position_at (projr (linear_human_init scenario_params [10, 45, 10, 70])) 10
     = Inr (Some (10 / 3, 0, 0)) \<and>
   position_at (projr (load_parameters scenario_params)) 10 = Inr (Some (10 / 3, 0, 0)) \<and>
   update_pose (projr (linear_human_init scenario_params [10, 45, 10, 70])) 10
     = Inr (projr (linear_human_init scenario_params [10, 45, 10, 70, 10])) \<and>
   update_pose (projr (linear_human_init scenario_params [10, 45, 10, 70, 10])) 10
     = Inr (projr (linear_human_init scenario_params [10, 45, 10, 70, 10]))"
proof -
  let ?a = "projr (load_parameters scenario_params)"
  let ?b = "projr (linear_human_init scenario_params [10, 45, 10, 70])"
  let ?c = "projr (linear_human_init scenario_params [10, 45, 10, 70, 10])"
  have r: "run_ticks ?a [10, 45, 10, 70] = Inr ?b" by code_simp
  have p: "position_at ?a 10 = Inr (Some (10 / 3, 0, 0))" by code_simp
  have u: "update_pose ?b 10 = Inr ?c" by code_simp
  note th = position_at_repeatable [OF r, of 10]
  from th p have 1: "position_at ?b 10 = Inr (Some (10 / 3, 0, 0))" by simp
  from th u have 2: "update_pose ?c 10 = Inr ?c" by blast
  from r 1 p u 2 show ?thesis by (intro conjI)
qed

subsection \<open>What construction checks\<close>

text \<open>
  Claim C8, as amended. \<open>load_parameters\<close> checks neither the goal list nor the duration:
  the duration is the constant 60, and any goal list, the empty one too, gives a schedule
  of \<open>n + 2\<close> waypoints and \<open>n + 2\<close> boundaries. Construction fails only with a division
  by zero, exactly when the grid is one cell wide or one cell high, and then \<open>__init__\<close>
  ends with that exception whatever the ticks would have been: the loop is not entered.
\<close>

theorem construction_failure:
  "(load_parameters p = Inl e \<longleftrightarrow>
      e = ZeroDivisionError \<and> (param_sim_width p = 1 \<or> param_sim_height p = 1)) \<and>
   (load_parameters p = Inl e \<longrightarrow> linear_human_init p ts = Inl e) \<and>
   (load_parameters p = Inr s \<longrightarrow>
      final_T s = 60 \<and>
      waypts_of s = [param_real_start p] @ param_real_goals p @ [param_real_start p] \<and>
      length (waypt_times s) = length (param_real_goals p) + 2)"
proof (intro conjI impI)
  show "load_parameters p = Inl e \<longleftrightarrow>
      e = ZeroDivisionError \<and> (param_sim_width p = 1 \<or> param_sim_height p = 1)"
    unfolding load_parameters_def by (rule load_parameters_T_Inl)
next
  assume "load_parameters p = Inl e"
  then show "linear_human_init p ts = Inl e" by (simp add: linear_human_init_def)
next
  assume "load_parameters p = Inr s"
  then have l: "load_parameters_T 60 p = Inr s" by (simp add: load_parameters_def)
  show "final_T s = 60" by (rule load_parameters_T_fields(1) [OF l])
  show "waypts_of s = [param_real_start p] @ param_real_goals p @ [param_real_start p]"
    by (simp add: waypts_of_def load_parameters_T_fields [OF l])
  show "length (waypt_times s) = length (param_real_goals p) + 2"
    by (rule waypt_times_length [OF schedule_built_load [OF l]])
qed

theorem construction_failure_witness:
  "load_parameters one_column_params = Inl ZeroDivisionError \<and>
   param_sim_width one_column_params = 1 \<and>
   linear_human_init one_column_params [10, 30] = Inl ZeroDivisionError \<and>
   load_parameters no_goal_params = Inr (projr (load_parameters no_goal_params)) \<and>
   final_T (projr (load_parameters no_goal_params)) = 60 \<and>
   waypts_of (projr (load_parameters no_goal_params)) = [(0, 0), (0, 0)] \<and>
   length (waypt_times (projr (load_parameters no_goal_params))) = 2"
proof -
  let ?a = "projr (load_parameters no_goal_params)"
  have w: "param_sim_width one_column_params = 1" by code_simp
  have l: "load_parameters no_goal_params = Inr ?a" by code_simp
  have g: "param_real_goals no_goal_params = []" "param_real_start no_goal_params = (0, 0)"
    by code_simp+
  note th1 = construction_failure [of one_column_params ZeroDivisionError "[10, 30]"]
  note th2 = construction_failure [of no_goal_params _ _ ?a]
  from th1 w have 1: "load_parameters one_column_params = Inl ZeroDivisionError" by blast
  with th1 have 2: "linear_human_init one_column_params [10, 30] = Inl ZeroDivisionError"
    by blast
  from th2 l have 3: "final_T ?a = 60"
    and 4: "waypts_of ?a = [param_real_start no_goal_params] @ param_real_goals no_goal_params
              @ [param_real_start no_goal_params]"
    and 5: "length (waypt_times ?a) = length (param_real_goals no_goal_params) + 2"
    by blast+
  from 1 w 2 l 3 4 5 show ?thesis by (simp add: g)
qed

text \<open>
  The claim as it is written fails for the empty goal list: construction returns an
  object, with the waypoints \<open>[start, start]\<close> and the boundaries \<open>[0, 60]\<close>, and the
  loop runs on it.
\<close>

theorem empty_goal_list_counterexample:
  "\<not> isl (load_parameters no_goal_params) \<and>
   \<not> isl (linear_human_init no_goal_params [30]) \<and>
   field_after waypts_of no_goal_params [] = Inr [(0, 0), (0, 0)] \<and>
   field_after waypt_times no_goal_params [] = Inr [0, 60] \<and>
   position_after no_goal_params [] 30 = Inr (Some (0, 0, 0))"
  by code_simp

subsection \<open>The previous pose\<close>

text \<open>
  Claim C9, as amended. \<open>prev_pose\<close> is the start point after construction. A call of
  \<open>update_pose\<close> before \<open>final_T\<close> sets \<open>prev_pose\<close> to the position computed for that
  call; a call at or after \<open>final_T\<close> leaves \<open>prev_pose\<close> as it was.
\<close>

theorem prev_pose_update:
  "(load_parameters p = Inr s0 \<longrightarrow> prev_pose s0 = param_real_start p) \<and>
   (update_pose s t = Inr s' \<longrightarrow>
      (t < final_T s \<longrightarrow> human_pose s' = Some (fst (prev_pose s'), snd (prev_pose s'), 0)) \<and>
      (final_T s \<le> t \<longrightarrow> prev_pose s' = prev_pose s))"
proof (intro conjI impI)
  assume "load_parameters p = Inr s0"
  then have "load_parameters_T 60 p = Inr s0" by (simp add: load_parameters_def)
  then show "prev_pose s0 = param_real_start p" by (rule load_parameters_T_fields(6))
next
  assume "update_pose s t = Inr s'" and "t < final_T s"
  then show "human_pose s' = Some (fst (prev_pose s'), snd (prev_pose s'), 0)"
    by (auto simp: update_pose_def Let_def set_human_pose_def split: sum.splits)
next
  assume "update_pose s t = Inr s'" and "final_T s \<le> t"
  then show "prev_pose s' = prev_pose s"
    by (auto simp: update_pose_def set_human_pose_def)
qed

theorem prev_pose_update_witness:
  "load_parameters scenario_params = Inr (projr (load_parameters scenario_params)) \<and>
   prev_pose (projr (load_parameters scenario_params)) = (0, 0) \<and>
   update_pose (projr (load_parameters scenario_params)) 10
     = Inr (projr (linear_human_init scenario_params [10])) \<and>
   (10::rat) < final_T (projr (load_parameters scenario_params)) \<and>
   human_pose (projr (linear_human_init scenario_params [10]))
     = Some (fst (prev_pose (projr (linear_human_init scenario_params [10]))),
             snd (prev_pose (projr (linear_human_init scenario_params [10]))), 0) \<and>
   update_pose (projr (linear_human_init scenario_params [10])) 60
     = Inr (projr (linear_human_init scenario_params [10, 60])) \<and>
   final_T (projr (linear_human_init scenario_params [10])) \<le> 60 \<and>
   prev_pose (projr (linear_human_init scenario_params [10, 60]))
     = prev_pose (projr (linear_human_init scenario_params [10]))"
proof -
  let ?a = "projr (load_parameters scenario_params)"
  let ?b = "projr (linear_human_init scenario_params [10])"
  let ?c = "projr (linear_human_init scenario_params [10, 60])"
  have l: "load_parameters scenario_params = Inr ?a" by code_simp
  have st: "param_real_start scenario_params = (0, 0)" by code_simp
  have u1: "update_pose ?a 10 = Inr ?b" and t1: "(10::rat) < final_T ?a" by code_simp+
  have u2: "update_pose ?b 60 = Inr ?c" and t2: "final_T ?b \<le> 60" by code_simp+
  note th1 = prev_pose_update [of scenario_params ?a ?a 10 ?b]
  note th2 = prev_pose_update [of scenario_params ?a ?b 60 ?c]
  from th1 l st have 1: "prev_pose ?a = (0, 0)" by simp
  from th1 u1 t1 have 2: "human_pose ?b = Some (fst (prev_pose ?b), snd (prev_pose ?b), 0)"
    by blast
  from th2 u2 t2 have 3: "prev_pose ?c = prev_pose ?b" by blast
  from l 1 u1 t1 2 u2 t2 3 show ?thesis by (intro conjI)
qed

text \<open>
  The claim as it is written fails for a call at or after \<open>final_T\<close>: after the ticks at
  10 and at 60, the position computed for the last call is the start \<open>(0, 0)\<close>, and
  \<open>prev_pose\<close> is still the position of the call at 10.
\<close>

theorem prev_pose_counterexample:
  "position_after scenario_params [10] 60 = Inr (Some (0, 0, 0)) \<and>
   field_after prev_pose scenario_params [10, 60] = Inr (10 / 3, 0) \<and>
   field_after prev_pose scenario_params [10, 60] \<noteq> Inr (0, 0)"
  by code_simp

end
